theory Spec2Isabelle
  imports Main "HOL-Library.Word"
begin

unbundle bit_operations_syntax

section \<open>Data model\<close>

type_synonym byte = "8 word"

text \<open>
  The failure values of the decoder. \<open>EOF\<close> is the error of the underlying reader (the
  stream ended before the requested bytes were there); the other four are the
  \<open>errors.New\<close> values of the source, one per message text.
\<close>

datatype error =
    EOF
  | ErrInvalidPreamble
  | ErrFrameCRC
  | ErrMessageCRC
  | ErrInvalidCRCType

datatype error_kind = StreamError | FramingError | IntegrityError | ProtocolError

fun kind_of :: "error \<Rightarrow> error_kind" where
  "kind_of EOF = StreamError"
| "kind_of ErrInvalidPreamble = FramingError"
| "kind_of ErrFrameCRC = IntegrityError"
| "kind_of ErrMessageCRC = IntegrityError"
| "kind_of ErrInvalidCRCType = ProtocolError"

text \<open>The struct \<open>Frame\<close> of frame.go, field by field with the Go types.\<close>

record Frame =
  Preamble :: "8 word"
  MessageType :: "8 word"
  PayloadLength :: "16 word"
  EAF :: bool
  MessageCRCType :: "8 word"
  CRC :: "8 word"
  MessageSubtype :: "8 word"
  TimeTagType :: bool
  TimeTag :: "32 word"
  SolutionID :: "8 word"
  SolutionProcessorID :: "8 word"
  EncryptionID :: "8 word"
  EncryptionSequenceNumber :: "8 word"
  AuthenticationIndicator :: "8 word"
  EmbeddedAuthenticationLength :: "8 word"
  MessagePayload :: "byte list"
  EmbeddedAuthenticationData :: "byte list"
  MessageCRC :: "32 word"

text \<open>The zero value of the struct, which is what the named result \<open>frame\<close> starts as.\<close>

definition zero_frame :: Frame where
  "zero_frame = \<lparr> Preamble = 0, MessageType = 0, PayloadLength = 0, EAF = False,
     MessageCRCType = 0, CRC = 0, MessageSubtype = 0, TimeTagType = False, TimeTag = 0,
     SolutionID = 0, SolutionProcessorID = 0, EncryptionID = 0,
     EncryptionSequenceNumber = 0, AuthenticationIndicator = 0,
     EmbeddedAuthenticationLength = 0, MessagePayload = [],
     EmbeddedAuthenticationData = [], MessageCRC = 0 \<rparr>"

definition FramePreamble :: "8 word" where
  "FramePreamble = 0x73"

section \<open>The reader\<close>

text \<open>
  The \<open>bufio.Reader\<close> is modelled by the list of bytes not yet consumed: a reader over a
  finite in-memory source that is shorter than the reader's buffer, so that the first
  fill buffers the whole stream and every later call is served from the buffer or meets
  the end of the stream. Each operation returns its Go results and the reader after it.

  \<^item> \<open>ReadByte\<close> takes one byte, or returns 0 and the error on an empty stream.
  \<^item> \<open>Peek n\<close> consumes nothing; with fewer than \<open>n\<close> bytes it returns what is there
    together with the error.
  \<^item> \<open>Discard n\<close> skips \<open>n\<close> bytes, or all that are left together with the error.
  \<^item> \<open>Read\<close> into a slice of length \<open>n\<close> returns at once for \<open>n = 0\<close>; it fails only on
    an empty stream; otherwise it copies \<open>min n (length r)\<close> bytes and reports no error,
    also when that is fewer than \<open>n\<close>. The slice comes from \<open>make\<close>, so the positions not
    written stay 0.

  Every one of these calls reports and clears the error it meets, so no error is pending
  between calls.
\<close>

type_synonym reader = "byte list"

fun ReadByte :: "reader \<Rightarrow> (byte \<times> error option) \<times> reader" where
  "ReadByte [] = ((0, Some EOF), [])"
| "ReadByte (b # r) = ((b, None), r)"

definition Peek :: "nat \<Rightarrow> reader \<Rightarrow> byte list \<times> error option" where
  "Peek n r = (if n \<le> length r then (take n r, None) else (r, Some EOF))"

definition Discard :: "nat \<Rightarrow> reader \<Rightarrow> (nat \<times> error option) \<times> reader" where
  "Discard n r = (if n \<le> length r then ((n, None), drop n r)
                  else ((length r, Some EOF), []))"

definition Read :: "nat \<Rightarrow> reader \<Rightarrow> (byte list \<times> error option) \<times> reader" where
  "Read n r = (if n = 0 then (([], None), r)
               else if r = [] then ((replicate n 0, Some EOF), r)
               else ((take n r @ replicate (n - length r) 0, None), drop n r))"

section \<open>The CRC engine\<close>

text \<open>
  Modelled from the spec: the checksum library behind \<open>crc.NewHash\<close> and
  \<open>CalculateCRC\<close> is not among the sources. Section 4.1 of the specification gives each
  algorithm by width, polynomial, initial value and final XOR, none reflected; that is
  the bitwise checksum, most significant bit first, on a 64-bit register: for every
  input bit the register is shifted left and the polynomial is XORed in when the bit
  shifted out differs from the input bit, and the result is masked to the width.
\<close>

record Parameters =
  Width :: nat
  Polynomial :: "64 word"
  Init :: "64 word"
  FinalXor :: "64 word"

definition crc_bit :: "Parameters \<Rightarrow> bool \<Rightarrow> 64 word \<Rightarrow> 64 word" where
  "crc_bit p inbit cur =
     (let topBit = push_bit (Width p - 1) (1 :: 64 word);
          shifted = push_bit 1 cur
      in if ((cur AND topBit) \<noteq> 0) \<noteq> inbit then shifted XOR Polynomial p else shifted)"

definition crc_byte :: "Parameters \<Rightarrow> byte \<Rightarrow> 64 word \<Rightarrow> 64 word" where
  "crc_byte p b cur = fold (\<lambda>j. crc_bit p (bit b j)) [7, 6, 5, 4, 3, 2, 1, 0] cur"

definition crc_calculate :: "Parameters \<Rightarrow> byte list \<Rightarrow> 64 word" where
  "crc_calculate p data =
     (fold (crc_byte p) data (Init p) XOR FinalXor p) AND mask (Width p)"

text \<open>The global \<open>FrameHash\<close>: width 8, polynomial 0x09.\<close>

definition FrameHash :: Parameters where
  "FrameHash = \<lparr> Width = 8, Polynomial = 0x09, Init = 0, FinalXor = 0 \<rparr>"

text \<open>
  \<open>MessageCRCType.CalculateCRC\<close>: the four selectors and the default branch, with the
  conversion of the 64-bit result to \<open>uint32\<close>.
\<close>

definition CalculateCRC :: "8 word \<Rightarrow> byte list \<Rightarrow> 32 word \<times> error option" where
  "CalculateCRC t data =
     (if t = 0 then
        (ucast (crc_calculate \<lparr> Width = 8, Polynomial = 0x07, Init = 0, FinalXor = 0 \<rparr> data), None)
      else if t = 1 then
        (ucast (crc_calculate \<lparr> Width = 16, Polynomial = 0x1021, Init = 0, FinalXor = 0 \<rparr> data), None)
      else if t = 2 then
        (ucast (crc_calculate \<lparr> Width = 24, Polynomial = 0x864CFB, Init = 0, FinalXor = 0 \<rparr> data), None)
      else if t = 3 then
        (ucast (crc_calculate \<lparr> Width = 32, Polynomial = 0x04C11DB7, Init = 0xFFFFFFFF,
                                FinalXor = 0xFFFFFFFF \<rparr> data), None)
      else (0, Some ErrInvalidCRCType))"

text \<open>
  \<open>DeserializeMessageCRC\<close>. Go gives \<open><<\<close>, \<open>>>\<close> and \<open>&\<close> one precedence and associates
  them to the left, so \<open>uint32(b[0]) << 8 & uint32(b[1])\<close> is \<open>(b0 << 8) & b1\<close>, and the
  longer expressions nest the same way.
\<close>

definition DeserializeMessageCRC :: "8 word \<Rightarrow> reader \<Rightarrow> (32 word \<times> error option) \<times> reader" where
  "DeserializeMessageCRC t r =
     (if t = 0 then
        (case ReadByte r of ((b, err), r') \<Rightarrow> ((ucast b, err), r'))
      else if t = 1 then
        (case Read 2 r of ((b, err), r') \<Rightarrow>
           ((push_bit 8 (ucast (b ! 0)) AND ucast (b ! 1), err), r'))
      else if t = 2 then
        (case Read 3 r of ((b, err), r') \<Rightarrow>
           ((push_bit 8 (push_bit 16 (ucast (b ! 0)) AND ucast (b ! 1)) AND ucast (b ! 2),
             err), r'))
      else if t = 3 then
        (case Read 4 r of ((b, err), r') \<Rightarrow>
           ((push_bit 8 (push_bit 16 (push_bit 24 (ucast (b ! 0)) AND ucast (b ! 1))
                          AND ucast (b ! 2)) AND ucast (b ! 3), err), r'))
      else ((0, Some ErrInvalidCRCType), r))"

section \<open>The frame decoder\<close>

text \<open>
  \<open>DeserializeFrameStart\<close>. The frame is passed by pointer, so the model returns it
  updated. \<open>PayloadLength\<close> is, with Go's left-to-right nesting,
  \<open>((((h0 & 1) << 9) & h1) << 1 & h2) >> 7\<close> on \<open>uint16\<close>.
\<close>

definition DeserializeFrameStart ::
  "reader \<Rightarrow> Frame \<Rightarrow> (byte list \<times> error option) \<times> Frame \<times> reader" where
  "DeserializeFrameStart r frame =
     (case Peek 3 r of
        (frameHeader, Some e) \<Rightarrow> ((frameHeader, Some e), frame, r)
      | (frameHeader, None) \<Rightarrow>
          (let h0 = frameHeader ! 0; h1 = frameHeader ! 1; h2 = frameHeader ! 2;
               frame1 = frame \<lparr>
                 MessageType := drop_bit 1 h0,
                 PayloadLength :=
                   drop_bit 7 (push_bit 1 (push_bit 9 (ucast (h0 AND 0x01)) AND ucast h1)
                               AND ucast h2),
                 EAF := (drop_bit 6 (h2 AND 0x40) = 0x01),
                 MessageCRCType := drop_bit 4 (h2 AND 0x30),
                 CRC := h2 AND 0x0F \<rparr>
           in if ucast (crc_calculate FrameHash (take 2 frameHeader)) \<noteq> CRC frame1
              then ((frameHeader, Some ErrFrameCRC), frame1, r)
              else (case Discard 3 r of
                      ((n, err), r') \<Rightarrow> ((frameHeader, err), frame1, r'))))"

text \<open>
  \<open>DeserializePayloadDescriptionBlock\<close>. The local \<open>payloadDescription\<close> is re-sliced
  in both branches (\<open>pd'\<close> below); \<open>parsedBytes\<close> is the value returned. All the
  shift-and-mask chains nest to the left, as Go parses them.
\<close>

definition DeserializePayloadDescriptionBlock ::
  "reader \<Rightarrow> Frame \<Rightarrow> (byte list \<times> error option) \<times> Frame \<times> reader" where
  "DeserializePayloadDescriptionBlock r frame =
     (case Peek 8 r of
        (pd, Some e) \<Rightarrow> (([], Some e), frame, r)
      | (pd, None) \<Rightarrow>
          (let frame1 = frame \<lparr>
                 MessageSubtype := drop_bit 4 (pd ! 0),
                 TimeTagType := (drop_bit 3 (pd ! 0 AND 0x04) = 0x01),
                 TimeTag :=
                   drop_bit 3 (push_bit 5 (push_bit 13 (ucast (pd ! 0 AND 0x07))
                                           AND ucast (pd ! 1))
                               AND ucast (pd ! 2 AND 0xF8)) \<rparr>;
               (frame2, (n, err), r', parsedBytes, pd') =
                 (if TimeTagType frame1 then
                    (frame1 \<lparr> TimeTag :=
                       drop_bit 3 (push_bit 5 (push_bit 13 (push_bit 16 (TimeTag frame1)
                                                 AND ucast (pd ! 2 AND 0x07))
                                               AND ucast (pd ! 3))
                                   AND ucast (pd ! 4 AND 0xF8)) \<rparr>,
                     fst (Discard 8 r), snd (Discard 8 r), pd, drop 4 pd)
                  else
                    (frame1, fst (Discard 6 r), snd (Discard 6 r), take 6 pd, drop 2 pd))
           in case err of
                Some e \<Rightarrow> ((parsedBytes, Some e), frame2, r')
              | None \<Rightarrow>
                  ((parsedBytes, None),
                   frame2 \<lparr>
                     SolutionID :=
                       drop_bit 4 (push_bit 4 (pd' ! 0 AND 0x07) AND (pd' ! 1 AND 0xF0)),
                     SolutionProcessorID := pd' ! 1 AND 0x0F,
                     EncryptionID := drop_bit 4 (pd' ! 2 AND 0xF0),
                     EncryptionSequenceNumber :=
                       drop_bit 6 (push_bit 4 (pd' ! 2 AND 0x0F) AND (pd' ! 3 AND 0xC0)),
                     AuthenticationIndicator := drop_bit 3 (pd' ! 3 AND 0x38),
                     EmbeddedAuthenticationLength := pd' ! 3 AND 0x7 \<rparr>,
                   r')))"

text \<open>
  \<open>DeserializeFrame\<close>: the result is the frame as far as it was filled in, the error
  (\<open>None\<close> for \<open>nil\<close>), and the reader after the call. The error of \<open>CalculateCRC\<close> is
  dropped, as the source drops it.

  \<open>Peek\<close> hands out slices of the reader's buffer. Between the two peeks and the
  recomputation of the checksum nothing refills that buffer, and the nested \<open>append\<close>
  calls write the peeked and read bytes back onto the places they came from, so the
  slices still hold the bytes that were peeked and the model passes them by value.
\<close>

definition DeserializeFrame :: "reader \<Rightarrow> (Frame \<times> error option) \<times> reader" where
  "DeserializeFrame r =
     (case ReadByte r of
        ((b, Some e), r1) \<Rightarrow> ((zero_frame \<lparr> Preamble := b \<rparr>, Some e), r1)
      | ((b, None), r1) \<Rightarrow>
          (let frame0 = zero_frame \<lparr> Preamble := b \<rparr> in
           if Preamble frame0 \<noteq> FramePreamble then ((frame0, Some ErrInvalidPreamble), r1)
           else
             (case DeserializeFrameStart r1 frame0 of
                ((frameHeader, Some e), frame1, r2) \<Rightarrow> ((frame1, Some e), r2)
              | ((frameHeader, None), frame1, r2) \<Rightarrow>
                  (case DeserializePayloadDescriptionBlock r2 frame1 of
                     ((payloadDescription, Some e), frame2, r3) \<Rightarrow> ((frame2, Some e), r3)
                   | ((payloadDescription, None), frame2, r3) \<Rightarrow>
                       (case Read (unat (PayloadLength frame2)) r3 of
                          ((payload, Some e), r4) \<Rightarrow>
                            ((frame2 \<lparr> MessagePayload := payload \<rparr>, Some e), r4)
                        | ((payload, None), r4) \<Rightarrow>
                            (let frame3 = frame2 \<lparr> MessagePayload := payload \<rparr> in
                             case Read (unat (EmbeddedAuthenticationLength frame3)) r4 of
                               ((auth, Some e), r5) \<Rightarrow>
                                 ((frame3 \<lparr> EmbeddedAuthenticationData := auth \<rparr>, Some e), r5)
                             | ((auth, None), r5) \<Rightarrow>
                                 (let frame4 = frame3 \<lparr> EmbeddedAuthenticationData := auth \<rparr> in
                                  case DeserializeMessageCRC (MessageCRCType frame4) r5 of
                                    ((c, Some e), r6) \<Rightarrow>
                                      ((frame4 \<lparr> MessageCRC := c \<rparr>, Some e), r6)
                                  | ((c, None), r6) \<Rightarrow>
                                      (let frame5 = frame4 \<lparr> MessageCRC := c \<rparr>;
                                           crc = fst (CalculateCRC (MessageCRCType frame5)
                                                   (frameHeader @ payloadDescription @
                                                    MessagePayload frame5 @
                                                    EmbeddedAuthenticationData frame5))
                                       in if crc \<noteq> MessageCRC frame5
                                          then ((frame5, Some ErrMessageCRC), r6)
                                          else ((frame5, None), r6)))))))))"

section \<open>The wire layout of the specification\<close>

text \<open>
  The source has no encoder. To write down well-formed frames, the wire layout is
  taken from the words of the specification (sections 3 and 6), not from the decoder:
  the fields in the order and with the widths of the table, each most significant bit
  first, packed into bytes; the header checksum over the first two header bytes; the
  trailing checksum over header, payload description, payload and authentication
  bytes, most significant byte first, 1 to 4 bytes by \<open>MessageCRCType\<close>.
\<close>

definition spec_bits_of :: "nat \<Rightarrow> int \<Rightarrow> bool list" where
  "spec_bits_of w v = map (bit v) (rev [0..<w])"

definition spec_byte_of_bits :: "bool list \<Rightarrow> byte" where
  "spec_byte_of_bits bs = foldl (\<lambda>acc b. push_bit 1 acc OR (if b then 1 else 0)) 0 bs"

definition spec_pack_bits :: "bool list \<Rightarrow> byte list" where
  "spec_pack_bits bs = map (\<lambda>i. spec_byte_of_bits (take 8 (drop (8 * i) bs))) [0..<length bs div 8]"

definition spec_wire_header :: "Frame \<Rightarrow> byte list" where
  "spec_wire_header f =
     (let fields = spec_bits_of 7 (uint (MessageType f)) @ spec_bits_of 10 (uint (PayloadLength f)) @
                   spec_bits_of 1 (if EAF f then 1 else 0) @ spec_bits_of 2 (uint (MessageCRCType f));
          headerCRC = crc_calculate FrameHash (spec_pack_bits (take 16 fields))
      in spec_pack_bits (fields @ spec_bits_of 4 (uint headerCRC)))"

definition spec_wire_payload_description :: "Frame \<Rightarrow> byte list" where
  "spec_wire_payload_description f =
     spec_pack_bits (spec_bits_of 4 (uint (MessageSubtype f)) @
                spec_bits_of 1 (if TimeTagType f then 1 else 0) @
                spec_bits_of (if TimeTagType f then 32 else 16) (uint (TimeTag f)) @
                spec_bits_of 7 (uint (SolutionID f)) @
                spec_bits_of 4 (uint (SolutionProcessorID f)) @
                spec_bits_of 4 (uint (EncryptionID f)) @
                spec_bits_of 6 (uint (EncryptionSequenceNumber f)) @
                spec_bits_of 3 (uint (AuthenticationIndicator f)) @
                spec_bits_of 3 (uint (EmbeddedAuthenticationLength f)))"

definition spec_wire_frame :: "Frame \<Rightarrow> byte list" where
  "spec_wire_frame f =
     (let body = spec_wire_header f @ spec_wire_payload_description f @ MessagePayload f @
                 EmbeddedAuthenticationData f;
          c = fst (CalculateCRC (MessageCRCType f) body)
      in FramePreamble # body @
         spec_pack_bits (spec_bits_of (8 * (unat (MessageCRCType f) + 1)) (uint c)))"

section \<open>Bit-level facts about the field expressions\<close>

lemma bit_int_0x03: "bit (0x03 :: int) n \<longleftrightarrow> n < 2"
  using bit_mask_iff [of 2 n, where ?'a = int] by (simp add: mask_eq_exp_minus_1)

lemma bit_int_0x07: "bit (0x07 :: int) n \<longleftrightarrow> n < 3"
  using bit_mask_iff [of 3 n, where ?'a = int] by (simp add: mask_eq_exp_minus_1)

lemma bit_int_0x0F: "bit (0x0F :: int) n \<longleftrightarrow> n < 4"
  using bit_mask_iff [of 4 n, where ?'a = int] by (simp add: mask_eq_exp_minus_1)

lemmas mask_bits = bit_int_0x03 bit_int_0x07 bit_int_0x0F

lemma payload_length_zero:
  "drop_bit 7 (push_bit 1 (push_bit 9 (ucast (h0 AND (0x01 :: 8 word)) :: 16 word)
                           AND ucast (h1 :: 8 word))
               AND ucast (h2 :: 8 word)) = (0 :: 16 word)"
proof -
  have "push_bit 9 (ucast (h0 AND (0x01 :: 8 word)) :: 16 word) AND ucast h1 = 0"
    by (rule bit_eqI) (auto simp: bit_simps dest: bit_imp_le_length)
  then show ?thesis by simp
qed

lemma time_tag_zero:
  "drop_bit 3 (push_bit 5 (push_bit 13 (ucast (p0 AND (0x07 :: 8 word)) :: 32 word)
                           AND ucast (p1 :: 8 word))
               AND ucast (p2 AND (0xF8 :: 8 word))) = (0 :: 32 word)"
proof -
  have "push_bit 13 (ucast (p0 AND (0x07 :: 8 word)) :: 32 word) AND ucast p1 = 0"
    by (rule bit_eqI) (auto simp: bit_simps dest: bit_imp_le_length)
  then show ?thesis by simp
qed

lemma time_tag_type_false: "drop_bit 3 (p0 AND (0x04 :: 8 word)) \<noteq> 0x01"
proof
  assume "drop_bit 3 (p0 AND (0x04 :: 8 word)) = 0x01"
  then have "bit (drop_bit 3 (p0 AND (0x04 :: 8 word))) 0" by simp
  then have "bit (0x04 :: 8 word) 3" by (simp add: bit_simps)
  then show False by simp
qed

lemma small_word_cases:
  fixes x :: "8 word"
  assumes "unat x < 4"
  shows "x \<in> {0, 1, 2, 3}"
proof -
  from assms have "unat x = 0 \<or> unat x = 1 \<or> unat x = 2 \<or> unat x = 3" by arith
  then have "x = 0 \<or> x = 1 \<or> x = 2 \<or> x = 3"
    by (auto simp: word_unat_eq_iff)
  then show ?thesis by auto
qed

lemma crc_type_range: "drop_bit 4 (h2 AND (0x30 :: 8 word)) \<in> {0, 1, 2, 3}"
proof -
  have field: "drop_bit 4 (h2 AND (0x30 :: 8 word)) = take_bit 2 (drop_bit 4 h2)"
    by (rule bit_eqI) (auto simp: bit_simps mask_bits)
  have "unat (take_bit 2 (drop_bit 4 h2)) < 4"
    using take_bit_nat_less_exp [of 2 "unat (drop_bit 4 h2)"]
    by (simp add: unsigned_take_bit_eq)
  then show ?thesis
    unfolding field by (rule small_word_cases)
qed

lemma solution_id_and:
  "drop_bit 4 (push_bit 4 (a AND (0x07 :: 8 word)) AND (b AND 0xF0)) = a AND drop_bit 4 b AND 0x07"
  by (rule bit_eqI) (auto simp: bit_simps mask_bits dest: bit_imp_le_length)

lemma sequence_number_and:
  "drop_bit 6 (push_bit 4 (a AND (0x0F :: 8 word)) AND (b AND 0xC0)) = drop_bit 2 a AND drop_bit 6 b"
  by (rule bit_eqI) (auto simp: bit_simps mask_bits dest: bit_imp_le_length)

section \<open>The two parsers, stage by stage\<close>

lemma DeserializeFrameStart_short:
  "length r < 3 \<Longrightarrow> DeserializeFrameStart r f = ((r, Some EOF), f, r)"
  by (simp add: DeserializeFrameStart_def Peek_def)

lemma DeserializeFrameStart_long:
  assumes "3 \<le> length r"
  shows "DeserializeFrameStart r f =
    (let f1 = f \<lparr> MessageType := drop_bit 1 (r ! 0), PayloadLength := 0,
                   EAF := (drop_bit 6 (r ! 2 AND 0x40) = 0x01),
                   MessageCRCType := drop_bit 4 (r ! 2 AND 0x30),
                   CRC := r ! 2 AND 0x0F \<rparr>
     in if ucast (crc_calculate FrameHash (take 2 r)) \<noteq> r ! 2 AND 0x0F
        then ((take 3 r, Some ErrFrameCRC), f1, r)
        else ((take 3 r, None), f1, drop 3 r))"
  using assms
  apply (simp only: DeserializeFrameStart_def payload_length_zero)
  apply (simp add: Peek_def Discard_def Let_def min_def)
  done

lemma DeserializePayloadDescriptionBlock_short:
  "length r < 8 \<Longrightarrow> DeserializePayloadDescriptionBlock r f = (([], Some EOF), f, r)"
  by (simp add: DeserializePayloadDescriptionBlock_def Peek_def)

lemma DeserializePayloadDescriptionBlock_long:
  assumes "8 \<le> length r"
  shows "DeserializePayloadDescriptionBlock r f =
    ((take 6 r, None),
     f \<lparr> MessageSubtype := drop_bit 4 (r ! 0), TimeTagType := False, TimeTag := 0,
         SolutionID := drop_bit 4 (push_bit 4 (r ! 2 AND 0x07) AND (r ! 3 AND 0xF0)),
         SolutionProcessorID := r ! 3 AND 0x0F,
         EncryptionID := drop_bit 4 (r ! 4 AND 0xF0),
         EncryptionSequenceNumber :=
           drop_bit 6 (push_bit 4 (r ! 4 AND 0x0F) AND (r ! 5 AND 0xC0)),
         AuthenticationIndicator := drop_bit 3 (r ! 5 AND 0x38),
         EmbeddedAuthenticationLength := r ! 5 AND 0x7 \<rparr>,
     drop 6 r)"
  using assms
  apply (simp only: DeserializePayloadDescriptionBlock_def time_tag_zero)
  apply (simp add: Peek_def Discard_def Let_def min_def)
  done

section \<open>Invariants of the decoded frame\<close>

lemma Read_zero: "Read 0 r = (([], None), r)"
  by (simp add: Read_def)

lemma Read_error: "Read n r = ((bs, Some e), r') \<Longrightarrow> e = EOF"
  by (auto simp: Read_def split: if_splits)

lemma DeserializeFrameStart_keeps:
  assumes "DeserializeFrameStart r f = (res, f', r')"
    and "PayloadLength f = 0" and "MessageCRCType f \<in> {0, 1, 2, 3}"
  shows "PayloadLength f' = 0 \<and> MessageCRCType f' \<in> {0, 1, 2, 3} \<and>
         TimeTag f' = TimeTag f \<and> MessagePayload f' = MessagePayload f"
proof (cases "length r < 3")
  case True
  with assms show ?thesis by (simp add: DeserializeFrameStart_short)
next
  case False
  then have "3 \<le> length r" by simp
  from DeserializeFrameStart_long [OF this, of f] assms crc_type_range [of "r ! 2"]
  show ?thesis by (auto simp: Let_def split: if_splits)
qed

lemma DeserializeFrameStart_error:
  assumes "DeserializeFrameStart r f = ((h, Some e), f', r')"
  shows "e = EOF \<or> e = ErrFrameCRC"
proof (cases "length r < 3")
  case True
  with assms show ?thesis by (simp add: DeserializeFrameStart_short)
next
  case False
  then have "3 \<le> length r" by simp
  from DeserializeFrameStart_long [OF this, of f] assms
  show ?thesis by (auto simp: Let_def split: if_splits)
qed

lemma DeserializePayloadDescriptionBlock_keeps:
  assumes "DeserializePayloadDescriptionBlock r f = (res, f', r')"
    and "TimeTag f = 0"
  shows "PayloadLength f' = PayloadLength f \<and> MessageCRCType f' = MessageCRCType f \<and>
         TimeTag f' = 0 \<and> MessagePayload f' = MessagePayload f"
proof (cases "length r < 8")
  case True
  with assms show ?thesis by (simp add: DeserializePayloadDescriptionBlock_short)
next
  case False
  then have "8 \<le> length r" by simp
  from DeserializePayloadDescriptionBlock_long [OF this, of f] assms
  show ?thesis by auto
qed

lemma DeserializePayloadDescriptionBlock_error:
  assumes "DeserializePayloadDescriptionBlock r f = ((bs, Some e), f', r')"
  shows "e = EOF"
proof (cases "length r < 8")
  case True
  with assms show ?thesis by (simp add: DeserializePayloadDescriptionBlock_short)
next
  case False
  then have "8 \<le> length r" by simp
  from DeserializePayloadDescriptionBlock_long [OF this, of f] assms
  show ?thesis by auto
qed

lemma ReadByte_error: "ReadByte r = ((b, Some e), r') \<Longrightarrow> e = EOF"
  by (cases r) auto

lemma DeserializeMessageCRC_error:
  assumes "DeserializeMessageCRC t r = ((c, Some e), r')" and "t \<in> {0, 1, 2, 3}"
  shows "e = EOF"
  using assms
  by (auto simp: DeserializeMessageCRC_def split: prod.splits dest: ReadByte_error Read_error)

lemma CalculateCRC_no_error: "t \<in> {0, 1, 2, 3} \<Longrightarrow> snd (CalculateCRC t data) = None"
  by (auto simp: CalculateCRC_def)

lemma DeserializeFrame_fields:
  "PayloadLength (fst (fst (DeserializeFrame r))) = 0 \<and>
   MessageCRCType (fst (fst (DeserializeFrame r))) \<in> {0, 1, 2, 3} \<and>
   TimeTag (fst (fst (DeserializeFrame r))) = 0 \<and>
   MessagePayload (fst (fst (DeserializeFrame r))) = []"
proof (cases r)
  case Nil
  then show ?thesis by (simp add: DeserializeFrame_def zero_frame_def)
next
  case (Cons b r1)
  show ?thesis
  proof (cases "b = FramePreamble")
    case False
    then show ?thesis by (simp add: Cons DeserializeFrame_def zero_frame_def)
  next
    case True
    let ?f0 = "zero_frame \<lparr> Preamble := FramePreamble \<rparr>"
    obtain res1 f1 r2 where s1: "DeserializeFrameStart r1 ?f0 = (res1, f1, r2)"
      by (cases "DeserializeFrameStart r1 ?f0") auto
    obtain res2 f2 r3 where s2: "DeserializePayloadDescriptionBlock r2 f1 = (res2, f2, r3)"
      by (cases "DeserializePayloadDescriptionBlock r2 f1") auto
    from DeserializeFrameStart_keeps [OF s1]
    have k1: "PayloadLength f1 = 0" "MessageCRCType f1 \<in> {0, 1, 2, 3}" "TimeTag f1 = 0"
      "MessagePayload f1 = []"
      by (simp_all add: zero_frame_def)
    from DeserializePayloadDescriptionBlock_keeps [OF s2 k1(3)] k1
    have k2: "PayloadLength f2 = 0" "MessageCRCType f2 \<in> {0, 1, 2, 3}" "TimeTag f2 = 0"
      "MessagePayload f2 = []"
      by simp_all
    show ?thesis
      using k1 k2
      by (simp add: Cons True DeserializeFrame_def Let_def s1 s2 Read_zero
          split: prod.splits option.splits)
  qed
qed

lemma DeserializeFrame_error:
  "snd (fst (DeserializeFrame r)) \<noteq> Some ErrInvalidCRCType"
proof (cases r)
  case Nil
  then show ?thesis by (simp add: DeserializeFrame_def)
next
  case (Cons b r1)
  show ?thesis
  proof (cases "b = FramePreamble")
    case False
    then show ?thesis by (simp add: Cons DeserializeFrame_def)
  next
    case True
    let ?f0 = "zero_frame \<lparr> Preamble := FramePreamble \<rparr>"
    obtain res1 f1 r2 where s1: "DeserializeFrameStart r1 ?f0 = (res1, f1, r2)"
      by (cases "DeserializeFrameStart r1 ?f0") auto
    obtain res2 f2 r3 where s2: "DeserializePayloadDescriptionBlock r2 f1 = (res2, f2, r3)"
      by (cases "DeserializePayloadDescriptionBlock r2 f1") auto
    from DeserializeFrameStart_keeps [OF s1]
    have k1: "MessageCRCType f1 \<in> {0, 1, 2, 3}" "TimeTag f1 = 0"
      by (simp_all add: zero_frame_def)
    from DeserializePayloadDescriptionBlock_keeps [OF s2 k1(2)] k1
    have k2: "MessageCRCType f2 \<in> {0, 1, 2, 3}"
      by simp
    have e1: "e \<noteq> ErrInvalidCRCType" if "res1 = (h, Some e)" for h e
      using DeserializeFrameStart_error [of r1 ?f0 h e f1 r2] s1 that by auto
    have e2: "e \<noteq> ErrInvalidCRCType" if "res2 = (h, Some e)" for h e
      using DeserializePayloadDescriptionBlock_error [of r2 f1 h e f2 r3] s2 that by auto
    have e3: "e \<noteq> ErrInvalidCRCType" if "Read n x = ((bs, Some e), y)" for n x bs e y
      using Read_error [OF that] by simp
    have e4: "e \<noteq> ErrInvalidCRCType"
      if "DeserializeMessageCRC (MessageCRCType f2) x = ((c, Some e), y)" for x c e y
      using DeserializeMessageCRC_error [OF that k2] by simp
    show ?thesis
      using e1 e2 e3 e4
      by (auto simp: Cons True DeserializeFrame_def Let_def s1 s2
          split: prod.splits option.splits)
  qed
qed

section \<open>What the reads consume\<close>

lemma shifted_byte_and_byte:
  "8 \<le> n \<Longrightarrow> push_bit n (x :: 32 word) AND ucast (b :: 8 word) = 0"
  by (rule bit_eqI) (auto simp: bit_simps dest: bit_imp_le_length)

lemma DeserializeMessageCRC_wide:
  assumes "t \<in> {1, 2, 3}"
  shows "fst (fst (DeserializeMessageCRC t r)) = 0"
  using assms
  by (auto simp: DeserializeMessageCRC_def shifted_byte_and_byte split: prod.splits)

lemma Read_reader: "snd (Read n r) = drop n r"
  by (simp add: Read_def)

lemma ReadByte_reader: "snd (ReadByte r) = drop 1 r"
  by (cases r) simp_all

lemma Read_ok: "Read n r = ((bs, None), r') \<Longrightarrow> r' = drop n r"
  using Read_reader [of n r] by simp

lemma Read_enough: "n \<le> length r \<Longrightarrow> Read n r = ((take n r, None), drop n r)"
  by (auto simp: Read_def)

lemma DeserializeMessageCRC_reader:
  assumes "t \<in> {0, 1, 2, 3}"
  shows "snd (DeserializeMessageCRC t r) = drop (unat t + 1) r"
proof -
  from assms consider "t = 0" | "t = 1" | "t = 2" | "t = 3" by auto
  then show ?thesis
  proof cases
    case 2
    then show ?thesis
      by (simp add: DeserializeMessageCRC_def split_beta Read_reader numeral_2_eq_2)
  qed (simp_all add: DeserializeMessageCRC_def split_beta Read_reader ReadByte_reader)
qed

lemma DeserializeMessageCRC_enough:
  assumes "t \<in> {0, 1, 2, 3}" and "unat t + 1 \<le> length r"
  shows "snd (fst (DeserializeMessageCRC t r)) = None"
  using assms
  by (cases r) (auto simp: DeserializeMessageCRC_def Read_enough)

lemma DeserializeMessageCRC_ok:
  assumes "DeserializeMessageCRC t r = ((c, None), r')" and "t \<in> {0, 1, 2, 3}"
  shows "r' = drop (unat t + 1) r"
  using DeserializeMessageCRC_reader [OF assms(2), of r] assms(1) by simp

lemma DeserializeFrameStart_ok:
  assumes "DeserializeFrameStart r f = ((h, None), f', r')"
  shows "r' = drop 3 r"
proof (cases "length r < 3")
  case True
  with assms show ?thesis by (simp add: DeserializeFrameStart_short)
next
  case False
  then have "3 \<le> length r" by simp
  from DeserializeFrameStart_long [OF this, of f] assms
  show ?thesis by (auto simp: Let_def split: if_splits)
qed

lemma DeserializePayloadDescriptionBlock_ok:
  assumes "DeserializePayloadDescriptionBlock r f = ((p, None), f', r')"
  shows "r' = drop 6 r"
proof (cases "length r < 8")
  case True
  with assms show ?thesis by (simp add: DeserializePayloadDescriptionBlock_short)
next
  case False
  then have "8 \<le> length r" by simp
  from DeserializePayloadDescriptionBlock_long [OF this, of f] assms
  show ?thesis by auto
qed

lemma message_crc_mismatch_consumed:
  assumes "DeserializeFrame r = ((f, Some ErrMessageCRC), r')"
  shows "r' = drop (11 + unat (EmbeddedAuthenticationLength f) + unat (MessageCRCType f)) r"
proof (cases r)
  case Nil
  with assms show ?thesis by (simp add: DeserializeFrame_def)
next
  case (Cons b r1)
  show ?thesis
  proof (cases "b = FramePreamble")
    case False
    with assms show ?thesis by (simp add: Cons DeserializeFrame_def)
  next
    case True
    let ?f0 = "zero_frame \<lparr> Preamble := FramePreamble \<rparr>"
    obtain h e1 f1 r2 where s1: "DeserializeFrameStart r1 ?f0 = ((h, e1), f1, r2)"
      by (cases "DeserializeFrameStart r1 ?f0") auto
    obtain p e2 f2 r3 where s2: "DeserializePayloadDescriptionBlock r2 f1 = ((p, e2), f2, r3)"
      by (cases "DeserializePayloadDescriptionBlock r2 f1") auto
    from DeserializeFrameStart_keeps [OF s1]
    have k1: "PayloadLength f1 = 0" "MessageCRCType f1 \<in> {0, 1, 2, 3}" "TimeTag f1 = 0"
      by (simp_all add: zero_frame_def)
    from DeserializePayloadDescriptionBlock_keeps [OF s2 k1(3)] k1
    have k2: "PayloadLength f2 = 0" "MessageCRCType f2 \<in> {0, 1, 2, 3}"
      by simp_all
    obtain auth e4 r5 where s4: "Read (unat (EmbeddedAuthenticationLength f2)) r3 = ((auth, e4), r5)"
      by (cases "Read (unat (EmbeddedAuthenticationLength f2)) r3") auto
    obtain c e5 r6 where s5: "DeserializeMessageCRC (MessageCRCType f2) r5 = ((c, e5), r6)"
      by (cases "DeserializeMessageCRC (MessageCRCType f2) r5") auto
    have n1: "e1 = None"
      using assms DeserializeFrameStart_error [of r1 ?f0 h _ f1 r2] s1
      by (cases e1) (auto simp: Cons True DeserializeFrame_def)
    have n2: "e2 = None"
      using assms DeserializePayloadDescriptionBlock_error [of r2 f1 p _ f2 r3] s2
      by (cases e2) (auto simp: Cons True DeserializeFrame_def s1 n1)
    have n4: "e4 = None"
      using assms Read_error [of _ r3 auth _ r5] s4
      by (cases e4) (auto simp: Cons True DeserializeFrame_def s1 n1 s2 n2 k2 Read_zero)
    have n5: "e5 = None"
      using assms DeserializeMessageCRC_error [of _ r5 c _ r6] s5 k2
      by (cases e5) (auto simp: Cons True DeserializeFrame_def s1 n1 s2 n2 k2 Read_zero s4 n4)
    have f: "EmbeddedAuthenticationLength f = EmbeddedAuthenticationLength f2"
      "MessageCRCType f = MessageCRCType f2" "r' = r6"
      using assms
      by (auto simp: Cons True DeserializeFrame_def s1 n1 s2 n2 k2 Read_zero s4 n4 s5 n5
          Let_def split: if_splits)
    have "r2 = drop 3 r1" using DeserializeFrameStart_ok s1 n1 by blast
    moreover have "r3 = drop 6 r2" using DeserializePayloadDescriptionBlock_ok s2 n2 by blast
    moreover have "r5 = drop (unat (EmbeddedAuthenticationLength f2)) r3"
      using Read_ok s4 n4 by blast
    moreover have "r6 = drop (unat (MessageCRCType f2) + 1) r5"
      using DeserializeMessageCRC_ok s5 n5 k2(2) by blast
    ultimately show ?thesis
      by (simp add: Cons f drop_Cons' ac_simps)
  qed
qed

lemma FrameHash_00: "crc_calculate FrameHash [0, 0] = 0"
  by code_simp

lemma FrameHash_01: "crc_calculate FrameHash [0, 1] = 9"
  by code_simp

section \<open>The claims\<close>

text \<open>
  C1 (round trip of a well-formed frame). The claim: every frame laid out as the
  specification says decodes to the fields, payload and authentication bytes that were
  packed. The decoder does not do that. The frame with \<open>PayloadLength = 1\<close> and the
  payload byte \<open>0x8A\<close> is, on the wire, the 12 bytes below. \<open>DeserializeFrame\<close> merges
  the three fragments of \<open>PayloadLength\<close> with \<open>&\<close>, gets 0, reads no payload, takes the
  payload byte for the trailing checksum (which happens to match the checksum of the
  nine bytes before it) and returns without error a frame with \<open>PayloadLength = 0\<close> and
  an empty \<open>MessagePayload\<close>, leaving the real checksum byte unread.
\<close>

theorem roundtrip_loses_payload:
  "spec_wire_frame (zero_frame \<lparr> PayloadLength := 1, MessagePayload := [0x8A] \<rparr>) =
     [0x73, 0, 0, 0x80, 0, 0, 0, 0, 0, 0, 0x8A, 0] \<and>
   DeserializeFrame [0x73, 0, 0, 0x80, 0, 0, 0, 0, 0, 0, 0x8A, 0] =
     ((zero_frame \<lparr> Preamble := 0x73, MessageCRC := 0x8A \<rparr>, None), [0])"
  by code_simp

text \<open>
  C2 (the minimal example frame). The claim: the frame with preamble, a header whose
  checksum matches, \<open>PayloadLength = 0\<close>, \<open>MessageCRCType = 0\<close>, \<open>TimeTagType = 0\<close>,
  no authentication bytes and the 1-byte trailing checksum, with nothing after it,
  decodes successfully, and any single flipped header bit gives an integrity error.
  That frame is 11 bytes. The payload description parser peeks 8 bytes where 6 belong
  to the block, only 7 are left after the header, and the decoder fails with the
  end-of-stream error. With the EAF bit of the header flipped the header check still
  passes and the outcome is the same end-of-stream error, not an integrity error.
\<close>

theorem minimal_frame_not_decoded:
  "spec_wire_frame zero_frame = [0x73, 0, 0, 0, 0, 0, 0, 0, 0, 0, 0] \<and>
   DeserializeFrame [0x73, 0, 0, 0, 0, 0, 0, 0, 0, 0, 0] =
     ((zero_frame \<lparr> Preamble := 0x73 \<rparr>, Some EOF), [0, 0, 0, 0, 0, 0, 0]) \<and>
   kind_of EOF = StreamError \<and>
   snd (fst (DeserializeFrame [0x73, 0, 0, 0x40, 0, 0, 0, 0, 0, 0, 0])) = Some EOF"
  by code_simp

text \<open>
  C3 (6 or 8 bytes by \<open>TimeTagType\<close>). The claim: with the \<open>TimeTagType\<close> bit 0 the block
  takes 6 bytes and \<open>TimeTag\<close> is the 16-bit value, with the bit 1 it takes 8 bytes and
  \<open>TimeTag\<close> is the 32-bit value. The parser tests \<open>(b0 & 0x04) >> 3\<close>, which is 0 for
  every byte, so the 8-byte branch is never taken. The block of a frame with
  \<open>TimeTagType = 1\<close> and \<open>TimeTag = 1\<close> is the 8 bytes below; the parser consumes 6 of
  them and reports \<open>TimeTagType = False\<close> and \<open>TimeTag = 0\<close>.
\<close>

theorem time_tag_type_never_set:
  "spec_wire_payload_description (zero_frame \<lparr> TimeTagType := True, TimeTag := 1 \<rparr>) =
     [0x08, 0, 0, 0, 0x08, 0, 0, 0] \<and>
   DeserializePayloadDescriptionBlock [0x08, 0, 0, 0, 0x08, 0, 0, 0] zero_frame =
     (([0x08, 0, 0, 0, 0x08, 0], None), zero_frame, [0, 0])"
  by code_simp

text \<open>
  C4 (reading the trailing checksum). The claim: for each selector the bytes read are
  reassembled most significant byte first, for width 16 as \<open>b0 * 256 + b1\<close>. For the
  selector 1 and the bytes \<open>0x12 0x34\<close> the function consumes both bytes and returns 0,
  not \<open>0x1234\<close>: the bytes are merged with \<open>&\<close>.
\<close>

theorem crc16_read_as_zero:
  "DeserializeMessageCRC 1 [0x12, 0x34] = ((0, None), [])"
  by code_simp

text \<open>
  C5 (header check and resynchronisation). With at least 3 bytes in the stream: if the
  header checksum over the first 2 bytes differs from the low 4 bits of the third,
  \<open>DeserializeFrameStart\<close> fails with the integrity error and the reader is unchanged
  (a peek returns the same 3 bytes); if it is equal, exactly 3 bytes are consumed and
  those 3 bytes are returned.
\<close>

theorem header_check_resync:
  assumes "3 \<le> length r"
  shows "(ucast (crc_calculate FrameHash (take 2 r)) \<noteq> r ! 2 AND 0x0F \<longrightarrow>
            fst (DeserializeFrameStart r f) = (take 3 r, Some ErrFrameCRC) \<and>
            kind_of ErrFrameCRC = IntegrityError \<and>
            snd (snd (DeserializeFrameStart r f)) = r \<and>
            Peek 3 (snd (snd (DeserializeFrameStart r f))) = (take 3 r, None)) \<and>
         (ucast (crc_calculate FrameHash (take 2 r)) = r ! 2 AND 0x0F \<longrightarrow>
            fst (DeserializeFrameStart r f) = (take 3 r, None) \<and>
            snd (snd (DeserializeFrameStart r f)) = drop 3 r)"
  using assms by (simp add: DeserializeFrameStart_long Let_def Peek_def)

theorem header_check_resync_witness:
  "3 \<le> length [0, 0, 1 :: byte] \<and>
   ucast (crc_calculate FrameHash (take 2 [0, 0, 1])) \<noteq> [0, 0, 1 :: byte] ! 2 AND 0x0F \<and>
   fst (DeserializeFrameStart [0, 0, 1] zero_frame) = ([0, 0, 1], Some ErrFrameCRC) \<and>
   snd (snd (DeserializeFrameStart [0, 0, 1] zero_frame)) = [0, 0, 1] \<and>
   3 \<le> length [0, 1, 9, 0xFF :: byte] \<and>
   ucast (crc_calculate FrameHash (take 2 [0, 1, 9, 0xFF])) = [0, 1, 9, 0xFF :: byte] ! 2 AND 0x0F \<and>
   fst (DeserializeFrameStart [0, 1, 9, 0xFF] zero_frame) = ([0, 1, 9], None) \<and>
   snd (snd (DeserializeFrameStart [0, 1, 9, 0xFF] zero_frame)) = [0xFF]"
proof -
  have a: "3 \<le> length [0, 0, 1 :: byte]" and b: "3 \<le> length [0, 1, 9, 0xFF :: byte]"
    by simp_all
  show ?thesis
    using header_check_resync [OF a, of zero_frame] header_check_resync [OF b, of zero_frame]
    by (simp add: FrameHash_00 FrameHash_01)
qed

text \<open>
  C6 (whole-frame checksum mismatch). The claim: on every stream holding a complete
  frame whose trailing checksum differs from the checksum recomputed over header,
  payload description, payload and authentication bytes, the decoder fails with an
  integrity error and has consumed the whole frame. Two complete frames with a wrong
  trailing checksum show otherwise. The frame of C1 with its checksum byte 0 replaced
  by \<open>0xFF\<close> is accepted without error, and its last byte is left unread: the decoder
  reads no payload and compares the payload byte with the checksum of the nine bytes
  before it. The minimal frame of C2 with its checksum byte 0 replaced by \<open>0x55\<close> gives
  the end-of-stream error of the 8-byte peek, with only 4 bytes consumed.
\<close>

theorem bad_checksum_not_reported:
  "fst (CalculateCRC 0 [0, 0, 0x80, 0, 0, 0, 0, 0, 0, 0x8A]) = 0 \<and>
   DeserializeFrame [0x73, 0, 0, 0x80, 0, 0, 0, 0, 0, 0, 0x8A, 0xFF] =
     ((zero_frame \<lparr> Preamble := 0x73, MessageCRC := 0x8A \<rparr>, None), [0xFF]) \<and>
   fst (CalculateCRC 0 [0, 0, 0, 0, 0, 0, 0, 0, 0]) = 0 \<and>
   DeserializeFrame [0x73, 0, 0, 0, 0, 0, 0, 0, 0, 0, 0x55] =
     ((zero_frame \<lparr> Preamble := 0x73 \<rparr>, Some EOF), [0, 0, 0, 0, 0, 0, 0x55])"
  by code_simp

text \<open>
  C7 (truncated frames). The claim: every strict prefix of a well-formed frame gives a
  stream error and nothing else. The frame with \<open>PayloadLength = 2\<close> and the payload
  \<open>0x26 0xBB\<close> is 13 bytes on the wire. Cut after 12 bytes, so that the trailing
  checksum is missing, it is decoded without any error: the decoder reads no payload
  and takes the first payload byte for the checksum.
\<close>

theorem truncated_frame_accepted:
  "spec_wire_frame (zero_frame \<lparr> PayloadLength := 2, MessagePayload := [0x26, 0xBB] \<rparr>) =
     [0x73, 0, 1, 9, 0, 0, 0, 0, 0, 0, 0x26, 0xBB, 0x28] \<and>
   DeserializeFrame (take 12 [0x73, 0, 1, 9, 0, 0, 0, 0, 0, 0, 0x26, 0xBB, 0x28]) =
     ((zero_frame \<lparr> Preamble := 0x73, CRC := 9, MessageCRC := 0x26 \<rparr>, None), [0xBB])"
  by code_simp

text \<open>
  C8 (unrecognised selector). For every selector outside 0..3 and every stream,
  \<open>DeserializeMessageCRC\<close> fails with the protocol error and leaves the reader as it
  was, and \<open>CalculateCRC\<close> fails with the protocol error whatever the data, returning
  the zero value and no checksum.
\<close>

theorem unknown_selector_rejected:
  assumes "t \<notin> {0, 1, 2, 3}"
  shows "DeserializeMessageCRC t r = ((0, Some ErrInvalidCRCType), r) \<and>
         CalculateCRC t data = (0, Some ErrInvalidCRCType) \<and>
         kind_of ErrInvalidCRCType = ProtocolError"
  using assms by (simp add: DeserializeMessageCRC_def CalculateCRC_def)

theorem unknown_selector_rejected_witness:
  "(4 :: 8 word) \<notin> {0, 1, 2, 3} \<and>
   DeserializeMessageCRC 4 [0x12, 0x34] = ((0, Some ErrInvalidCRCType), [0x12, 0x34]) \<and>
   CalculateCRC 4 [0x31, 0x32] = (0, Some ErrInvalidCRCType)"
proof -
  have a: "(4 :: 8 word) \<notin> {0, 1, 2, 3}" by simp
  from unknown_selector_rejected [OF a, of "[0x12, 0x34]" "[0x31, 0x32]"] a
  show ?thesis by simp
qed

text \<open>
  C9 (fields merged with \<open>&\<close>). The claim: \<open>PayloadLength\<close>, \<open>TimeTag\<close>, \<open>SolutionID\<close>
  and \<open>EncryptionSequenceNumber\<close> are always 0 and \<open>MessagePayload\<close> is always empty.
  As stated it fails for the last two fields: Go reads \<open>a << 4 & b >> 4\<close> as
  \<open>((a << 4) & b) >> 4\<close>, so the two fragments meet in the same bit positions before
  the right shift. On the block below \<open>SolutionID\<close> is 7 and
  \<open>EncryptionSequenceNumber\<close> is 3.
\<close>

theorem overlapping_fragments_survive:
  "SolutionID (fst (snd (DeserializePayloadDescriptionBlock
      [0, 0, 0x07, 0x70, 0x0F, 0xC0, 0, 0] zero_frame))) = 7 \<and>
   EncryptionSequenceNumber (fst (snd (DeserializePayloadDescriptionBlock
      [0, 0, 0x07, 0x70, 0x0F, 0xC0, 0, 0] zero_frame))) = 3"
  by code_simp

text \<open>
  C9 as amended. \<open>PayloadLength\<close> as set by \<open>DeserializeFrameStart\<close> is 0, so
  \<open>PayloadLength\<close> is 0 and \<open>MessagePayload\<close> is empty in every frame returned by
  \<open>DeserializeFrame\<close>; \<open>TimeTag\<close> as set by \<open>DeserializePayloadDescriptionBlock\<close> is 0.
  \<open>SolutionID\<close> is the bitwise AND of the low 3 bits of byte 2 with the high nibble of
  byte 3, and \<open>EncryptionSequenceNumber\<close> the bitwise AND of bits 2..3 of byte 4 with
  bits 6..7 of byte 5; neither is always 0.
\<close>

theorem merged_fields:
  "(3 \<le> length r \<longrightarrow> PayloadLength (fst (snd (DeserializeFrameStart r f))) = 0) \<and>
   PayloadLength (fst (fst (DeserializeFrame s))) = 0 \<and>
   MessagePayload (fst (fst (DeserializeFrame s))) = [] \<and>
   (8 \<le> length p \<longrightarrow>
      TimeTag (fst (snd (DeserializePayloadDescriptionBlock p f))) = 0 \<and>
      SolutionID (fst (snd (DeserializePayloadDescriptionBlock p f))) =
        p ! 2 AND drop_bit 4 (p ! 3) AND 0x07 \<and>
      EncryptionSequenceNumber (fst (snd (DeserializePayloadDescriptionBlock p f))) =
        drop_bit 2 (p ! 4) AND drop_bit 6 (p ! 5))"
proof -
  have "PayloadLength (fst (snd (DeserializeFrameStart r f))) = 0" if "3 \<le> length r"
    using that by (simp add: DeserializeFrameStart_long Let_def)
  moreover have "TimeTag (fst (snd (DeserializePayloadDescriptionBlock p f))) = 0 \<and>
      SolutionID (fst (snd (DeserializePayloadDescriptionBlock p f))) =
        p ! 2 AND drop_bit 4 (p ! 3) AND 0x07 \<and>
      EncryptionSequenceNumber (fst (snd (DeserializePayloadDescriptionBlock p f))) =
        drop_bit 2 (p ! 4) AND drop_bit 6 (p ! 5)" if "8 \<le> length p"
    by (simp only: DeserializePayloadDescriptionBlock_long [OF that] solution_id_and
        sequence_number_and) simp
  ultimately show ?thesis
    using DeserializeFrame_fields [of s] by simp
qed

theorem merged_fields_witness:
  "3 \<le> length [0x01, 0xFF, 0x80 :: byte] \<and>
   PayloadLength (fst (snd (DeserializeFrameStart [0x01, 0xFF, 0x80] zero_frame))) = 0 \<and>
   8 \<le> length [0x07, 0xFF, 0xFF, 0x70, 0x0F, 0xC0, 0, 0 :: byte] \<and>
   TimeTag (fst (snd (DeserializePayloadDescriptionBlock
      [0x07, 0xFF, 0xFF, 0x70, 0x0F, 0xC0, 0, 0] zero_frame))) = 0 \<and>
   SolutionID (fst (snd (DeserializePayloadDescriptionBlock
      [0x07, 0xFF, 0xFF, 0x70, 0x0F, 0xC0, 0, 0] zero_frame))) = 7"
proof -
  have a: "3 \<le> length [0x01, 0xFF, 0x80 :: byte]"
    and b: "8 \<le> length [0x07, 0xFF, 0xFF, 0x70, 0x0F, 0xC0, 0, 0 :: byte]"
    by simp_all
  from merged_fields [of "[0x01, 0xFF, 0x80]" zero_frame "[]"
      "[0x07, 0xFF, 0xFF, 0x70, 0x0F, 0xC0, 0, 0]"] a b
  show ?thesis by simp
qed

text \<open>
  C10 (the selector is always recognised). \<open>MessageCRCType\<close> as set by
  \<open>DeserializeFrameStart\<close> lies in 0..3; so does the field of every frame returned by
  \<open>DeserializeFrame\<close>, which therefore never returns the invalid-selector error of
  \<open>DeserializeMessageCRC\<close>, and the error that \<open>CalculateCRC\<close> returns for that selector,
  which \<open>DeserializeFrame\<close> drops, is \<open>nil\<close>.
\<close>

theorem crc_type_always_recognized:
  "(3 \<le> length r \<longrightarrow>
      MessageCRCType (fst (snd (DeserializeFrameStart r f))) \<in> {0, 1, 2, 3}) \<and>
   MessageCRCType (fst (fst (DeserializeFrame s))) \<in> {0, 1, 2, 3} \<and>
   snd (fst (DeserializeFrame s)) \<noteq> Some ErrInvalidCRCType \<and>
   snd (CalculateCRC (MessageCRCType (fst (fst (DeserializeFrame s)))) data) = None"
proof -
  have "MessageCRCType (fst (snd (DeserializeFrameStart r f))) \<in> {0, 1, 2, 3}"
    if "3 \<le> length r"
    using that crc_type_range [of "r ! 2"]
    by (simp add: DeserializeFrameStart_long Let_def)
  moreover have "MessageCRCType (fst (fst (DeserializeFrame s))) \<in> {0, 1, 2, 3}"
    using DeserializeFrame_fields [of s] by simp
  ultimately show ?thesis
    using DeserializeFrame_error [of s] CalculateCRC_no_error by blast
qed

theorem crc_type_always_recognized_witness:
  "3 \<le> length [0, 0, 0x30 :: byte] \<and>
   MessageCRCType (fst (snd (DeserializeFrameStart [0, 0, 0x30] zero_frame))) \<in> {0, 1, 2, 3} \<and>
   snd (fst (DeserializeFrame [0x73, 0, 0, 0x30])) \<noteq> Some ErrInvalidCRCType"
proof -
  have a: "3 \<le> length [0, 0, 0x30 :: byte]" by simp
  from crc_type_always_recognized [of "[0, 0, 0x30]" zero_frame "[0x73, 0, 0, 0x30]" "[]"] a
  show ?thesis by simp
qed

end
